theory Spec2Isabelle
  imports Complex_Main "HOL-Library.Char_ord" "HOL-Library.List_Lexorder"
begin

section \<open>Numbers and instants\<close>

text \<open>
  The arrays that the propagation library hands back hold IEEE doubles. A double is
  modelled by its exact rational value, or one of the three non-finite values; rounding
  error of the arithmetic is left out, the non-finite cases are kept, because a failed
  propagation shows up as NaN in these arrays.
\<close>

datatype pyfloat = Fin rat | NaN | PosInf | NegInf

fun is_finite :: "pyfloat \<Rightarrow> bool" where
  "is_finite (Fin _) = True"
| "is_finite _ = False"

text \<open>IEEE addition: NaN is absorbing, opposite infinities give NaN.\<close>

fun fadd :: "pyfloat \<Rightarrow> pyfloat \<Rightarrow> pyfloat" where
  "fadd (Fin a) (Fin b) = Fin (a + b)"
| "fadd NaN _ = NaN"
| "fadd _ NaN = NaN"
| "fadd PosInf NegInf = NaN"
| "fadd NegInf PosInf = NaN"
| "fadd PosInf _ = PosInf"
| "fadd _ PosInf = PosInf"
| "fadd NegInf _ = NegInf"
| "fadd _ NegInf = NegInf"

text \<open>Division of a sum by a positive count.\<close>

fun fdiv_count :: "pyfloat \<Rightarrow> nat \<Rightarrow> pyfloat" where
  "fdiv_count (Fin a) n = Fin (a / of_nat n)"
| "fdiv_count x n = x"

text \<open>\<^verbatim>\<open>np.mean\<close>: the sum of all entries over their number; NaN on an empty array.\<close>

definition np_mean :: "pyfloat list \<Rightarrow> pyfloat" where
  "np_mean xs = (if xs = [] then NaN else fdiv_count (foldl fadd (Fin 0) xs) (length xs))"

text \<open>
  \<^verbatim>\<open>round(float(x), 2)\<close>: to two decimals, ties to even; Python returns a NaN or an
  infinity unchanged when the number of digits is given.
\<close>

definition round_half_even :: "rat \<Rightarrow> int" where
  "round_half_even q =
     (let f = \<lfloor>q\<rfloor>; d = q - of_int f
      in if d < 1 / 2 then f else if 1 / 2 < d then f + 1 else if even f then f else f + 1)"

fun round2 :: "pyfloat \<Rightarrow> pyfloat" where
  "round2 (Fin r) = Fin (of_int (round_half_even (r * 100)) / 100)"
| "round2 x = x"

text \<open>
  A \<^verbatim>\<open>datetime\<close> in UTC: the calendar date as its day number, and the time of day.
\<close>

record datetime =
  day :: int
  hour :: nat
  minute :: nat
  second :: nat
  microsecond :: nat

definition date :: "datetime \<Rightarrow> int" where
  "date dt = day dt"

text \<open>An instant of the time scale, in days; it is what \<^verbatim>\<open>ts.from_datetime\<close> returns.\<close>

type_synonym instant = rat

definition from_datetime :: "datetime \<Rightarrow> instant" where
  "from_datetime dt =
     of_int (day dt)
     + (of_nat (hour dt * 3600 + minute dt * 60 + second dt) + of_nat (microsecond dt) / 1000000)
       / 86400"

section \<open>transformation/physics.py\<close>

subsection \<open>The time grid\<close>

text \<open>\<^verbatim>\<open>np.arange(start, stop, step)\<close> for a positive step.\<close>

function arange :: "int \<Rightarrow> int \<Rightarrow> int \<Rightarrow> int list" where
  "arange start stop step =
     (if step \<le> 0 \<or> stop \<le> start then [] else start # arange (start + step) stop step)"
  by pat_completeness auto
termination
  by (relation "measure (\<lambda>(start, stop, step). nat (stop - start))") auto

text \<open>\<^verbatim>\<open>midnight = now.replace(hour = 0, minute = 0, second = 0, microsecond = 0)\<close>\<close>

definition midnight :: "datetime \<Rightarrow> datetime" where
  "midnight now = now\<lparr>hour := 0, minute := 0, second := 0, microsecond := 0\<rparr>"

definition start_time :: "datetime \<Rightarrow> instant" where
  "start_time now = from_datetime (midnight now)"

definition minutes :: "int list" where
  "minutes = arange 0 1440 10"

text \<open>
  \<^verbatim>\<open>timeVector = start_time + (minutes / 1440.0)\<close>, computed once when the module is
  loaded; \<open>now\<close> is the clock reading at that moment.
\<close>

definition timeVector :: "datetime \<Rightarrow> instant list" where
  "timeVector now = map (\<lambda>m. start_time now + of_int m / 1440) minutes"

subsection \<open>get\_position\<close>

text \<open>
  One orbital element set, as the record of named fields that \<^verbatim>\<open>from_omm\<close> reads.
\<close>

type_synonym sat_data = "(string \<times> string) list"

text \<open>
  The propagation library is a parameter. \<open>geographic_position\<close> stands for lines 20 to
  30: building the satellite from the element set, evaluating it on the whole grid and
  converting to latitudes, longitudes and elevations. It may raise (a malformed element
  set), otherwise it returns the three arrays. \<open>utc_str\<close> is
  \<^verbatim>\<open>str(t.utc_datetime())\<close>.
\<close>

datatype lib_error = LibraryError

record skyfield =
  geographic_position ::
    "sat_data \<Rightarrow> instant list \<Rightarrow> lib_error + (pyfloat list \<times> pyfloat list \<times> pyfloat list)"
  utc_str :: "instant \<Rightarrow> string"

record point =
  timestamp :: string
  lat :: pyfloat
  lon :: pyfloat

text \<open>The loop of lines 32 to 39 over \<^verbatim>\<open>zip(timeVector, lats, lons)\<close>.\<close>

fun build_path :: "skyfield \<Rightarrow> instant list \<Rightarrow> pyfloat list \<Rightarrow> pyfloat list \<Rightarrow> point list" where
  "build_path lib (t # ts) (la # lats) (lo # lons) =
     \<lparr>timestamp = utc_str lib t, lat = round2 la, lon = round2 lo\<rparr> # build_path lib ts lats lons"
| "build_path lib _ _ _ = []"

definition get_position ::
  "skyfield \<Rightarrow> datetime \<Rightarrow> sat_data \<Rightarrow> lib_error + (point list \<times> pyfloat)" where
  "get_position lib now sat =
     (case geographic_position lib sat (timeVector now) of
        Inl e \<Rightarrow> Inl e
      | Inr (lats, lons, alts) \<Rightarrow>
          Inr (build_path lib (timeVector now) lats lons, np_mean alts))"

text \<open>
  The claim that the mean is taken over the successful samples only, in the words of the
  specification (4.4): the mean of the finite elevations, the others dropped. It is
  compared with what \<open>get_position\<close> returns.
\<close>

definition mean_of_successful :: "pyfloat list \<Rightarrow> pyfloat" where
  "mean_of_successful alts = np_mean (filter is_finite alts)"

subsection \<open>The catalog-wide sweep\<close>

text \<open>
  Modelled from the spec: the catalog-wide sweep that calls \<open>get_position\<close> once per
  object and assembles the snapshot is not among the source files. Specification 4.4 and
  7: a failure signalled for one object is absorbed at the trajectory builder's
  boundary, that object is excluded, and the sweep goes on with the next object.
\<close>

fun sweep :: "skyfield \<Rightarrow> datetime \<Rightarrow> sat_data list \<Rightarrow> (sat_data \<times> point list \<times> pyfloat) list" where
  "sweep lib now [] = []"
| "sweep lib now (sat # sats) =
     (case get_position lib now sat of
        Inl _ \<Rightarrow> sweep lib now sats
      | Inr (path, mean_alt) \<Rightarrow> (sat, path, mean_alt) # sweep lib now sats)"

section \<open>visualization/main.py\<close>

subsection \<open>Data\<close>

text \<open>
  A cell of the \<^verbatim>\<open>Trajectory\<close> column is either JSON text or an already decoded list of
  points; a cell of \<^verbatim>\<open>Avg_Altitude\<close> is text or a number. A row has the columns that the
  modelled functions read.
\<close>

datatype traj_cell = TrajText string | TrajList "point list"

datatype alt_cell = AltText string | AltNum pyfloat

record row =
  Object_Name :: string
  Owner :: string
  Orbit :: string
  Trajectory :: traj_cell
  Avg_Altitude :: alt_cell

record kpi_row =
  Total_Objects :: int
  Payload_Count :: int
  Debris_Count :: int
  Debris_Ratio_Pct :: pyfloat

text \<open>
  The dictionary \<^verbatim>\<open>{'main': .., 'kpi': .., 'timestamps': ..}\<close> that is pickled, and the
  content of the object \<^verbatim>\<open>orbital_data_cache.pkl\<close>: such a pickle, or bytes that
  \<^verbatim>\<open>pd.read_pickle\<close> cannot read.
\<close>

record cached_data =
  cached_main :: "row list"
  cached_kpi :: "kpi_row list"
  cached_ts :: "datetime list"

datatype blob_content = Pickle cached_data | Unreadable

text \<open>The calls to the two external services, in the order they are made.\<close>

datatype effect = GcsExists | GcsDownload | BqQueryMain | BqQueryKpi | GcsUpload

text \<open>
  The module's globals, the stored object (\<open>None\<close>: it does not exist) and the calls made
  so far.
\<close>

record state =
  df_main :: "row list option"
  df_kpi :: "kpi_row list option"
  timestamps :: "datetime list"
  search_options :: "(string \<times> string) list"
  blob :: "blob_content option"
  effects :: "effect list"

text \<open>
  What one call meets outside the process: the clock, which external calls raise, what
  the two queries return (\<open>None\<close>: the query raises), and the library functions
  \<^verbatim>\<open>json.loads\<close>, \<^verbatim>\<open>pd.to_numeric\<close> on one cell and \<^verbatim>\<open>pd.to_datetime\<close> on one string
  (\<open>None\<close>: the text cannot be parsed).
\<close>

record env =
  now_utc :: datetime
  exists_raises :: bool
  download_raises :: bool
  read_gbq_main :: "row list option"
  read_gbq_kpi :: "kpi_row list option"
  upload_raises :: bool
  json_loads :: "string \<Rightarrow> point list option"
  parse_number :: "string \<Rightarrow> pyfloat option"
  to_datetime :: "string \<Rightarrow> datetime option"

text \<open>
  How a call ends other than by returning: \<^verbatim>\<open>sys.exit(1)\<close>, or an exception that no
  handler of the function catches.
\<close>

datatype abort = SystemExit int | Uncaught lib_error

subsection \<open>load\_data\_smart\<close>

definition called :: "effect \<Rightarrow> state \<Rightarrow> state" where
  "called x s = s\<lparr>effects := effects s @ [x]\<rparr>"

text \<open>
  \<^verbatim>\<open>sorted(df_main['Object_Name'].astype(str).unique())\<close> and the list of options built
  from it (lines 58, 59 and 95, 96).
\<close>

definition options_of :: "row list \<Rightarrow> (string \<times> string) list" where
  "options_of rows = map (\<lambda>name. (name, name)) (sort (remdups (map Object_Name rows)))"

text \<open>\<^verbatim>\<open>json.loads\<close> on one cell: it raises on a value that is not text.\<close>

fun loads_cell :: "env \<Rightarrow> traj_cell \<Rightarrow> traj_cell option" where
  "loads_cell e (TrajText t) = map_option TrajList (json_loads e t)"
| "loads_cell e (TrajList _) = None"

text \<open>Lines 72, 73: every cell is decoded when the first one is text.\<close>

definition decode_trajectories :: "env \<Rightarrow> row list \<Rightarrow> row list option" where
  "decode_trajectories e rows =
     (case rows of
        [] \<Rightarrow> None
      | r0 # _ \<Rightarrow>
          (case Trajectory r0 of
             TrajText _ \<Rightarrow>
               map_option (map (\<lambda>(r, c). r\<lparr>Trajectory := c\<rparr>) \<circ> zip rows)
                 (those (map (loads_cell e \<circ> Trajectory) rows))
           | TrajList _ \<Rightarrow> Some rows))"

text \<open>Line 75: \<^verbatim>\<open>pd.to_numeric(.., errors='coerce')\<close>, text that is no number becomes NaN.\<close>

fun to_numeric :: "env \<Rightarrow> alt_cell \<Rightarrow> alt_cell" where
  "to_numeric e (AltNum x) = AltNum x"
| "to_numeric e (AltText t) = AltNum (case parse_number e t of None \<Rightarrow> NaN | Some x \<Rightarrow> x)"

text \<open>Lines 80, 81: the timestamps of the first row's trajectory, parsed.\<close>

definition first_timestamps :: "env \<Rightarrow> row list \<Rightarrow> datetime list option" where
  "first_timestamps e rows =
     (case rows of
        [] \<Rightarrow> None
      | r0 # _ \<Rightarrow>
          (case Trajectory r0 of
             TrajText _ \<Rightarrow> None
           | TrajList pts \<Rightarrow> those (map (to_datetime e \<circ> timestamp) pts)))"

text \<open>
  Lines 66 to 101, the download from the warehouse. Every exception inside the
  \<^verbatim>\<open>try\<close> ends in \<^verbatim>\<open>sys.exit(1)\<close>; the globals assigned before it keep their new
  values.
\<close>

definition refresh_from_bigquery :: "env \<Rightarrow> state \<Rightarrow> (abort \<times> state) + state" where
  "refresh_from_bigquery e s =
     (let s1 = called BqQueryMain s in
      case read_gbq_main e of
        None \<Rightarrow> Inl (SystemExit 1, s1)
      | Some rows \<Rightarrow>
          let s2 = s1\<lparr>df_main := Some rows\<rparr> in
          (case decode_trajectories e rows of
             None \<Rightarrow> Inl (SystemExit 1, s2)
           | Some decoded \<Rightarrow>
               let frame = map (\<lambda>r. r\<lparr>Avg_Altitude := to_numeric e (Avg_Altitude r)\<rparr>) decoded;
                   s3 = called BqQueryKpi (s2\<lparr>df_main := Some frame\<rparr>) in
               (case read_gbq_kpi e of
                  None \<Rightarrow> Inl (SystemExit 1, s3)
                | Some kpi \<Rightarrow>
                    let s4 = s3\<lparr>df_kpi := Some kpi\<rparr> in
                    (case first_timestamps e frame of
                       None \<Rightarrow> Inl (SystemExit 1, s4)
                     | Some ts \<Rightarrow>
                         let s5 = called GcsUpload (s4\<lparr>timestamps := ts\<rparr>);
                             data_to_store =
                               \<lparr>cached_main = frame, cached_kpi = kpi, cached_ts = ts\<rparr> in
                         if upload_raises e then Inl (SystemExit 1, s5)
                         else Inr (s5\<lparr>blob := Some (Pickle data_to_store),
                                       search_options := options_of frame\<rparr>)))))"

text \<open>
  Lines 53 to 60: the test of freshness on a pickle that was read, and the load into the
  globals.
\<close>

definition is_fresh :: "datetime list \<Rightarrow> int \<Rightarrow> bool" where
  "is_fresh cached today_utc =
     (case cached of [] \<Rightarrow> False | t0 # _ \<Rightarrow> date t0 = today_utc)"

definition load_cached :: "cached_data \<Rightarrow> state \<Rightarrow> state" where
  "load_cached c s =
     s\<lparr>df_main := Some (cached_main c), df_kpi := Some (cached_kpi c),
       timestamps := cached_ts c, search_options := options_of (cached_main c)\<rparr>"

text \<open>
  The whole function. Lines 41 to 45 (the client and the existence probe) are outside
  every handler; the exceptions of lines 47 to 62 are caught and lead to the download from
  the warehouse, as a stale pickle does.
\<close>

definition load_data_smart :: "env \<Rightarrow> state \<Rightarrow> (abort \<times> state) + state" where
  "load_data_smart e s =
     (if df_main s \<noteq> None then Inr s
      else
        let today_utc = date (now_utc e);
            s1 = called GcsExists s in
        if exists_raises e then Inl (Uncaught LibraryError, s1)
        else
          (case blob s of
             None \<Rightarrow> refresh_from_bigquery e s1
           | Some content \<Rightarrow>
               let s2 = called GcsDownload s1 in
               if download_raises e then refresh_from_bigquery e s2
               else
                 (case content of
                    Unreadable \<Rightarrow> refresh_from_bigquery e s2
                  | Pickle c \<Rightarrow>
                      if is_fresh (cached_ts c) today_utc then Inr (load_cached c s2)
                      else refresh_from_bigquery e s2)))"

text \<open>
  The date a state's snapshot carries: that of its first timestamp, which is what line 53
  tests.
\<close>

definition served_date :: "state \<Rightarrow> int option" where
  "served_date s = (case timestamps s of [] \<Rightarrow> None | t0 # _ \<Rightarrow> Some (date t0))"

text \<open>The state a call leaves behind, however it ends, and the calls it made.\<close>

fun outcome_state :: "(abort \<times> state) + state \<Rightarrow> state" where
  "outcome_state (Inl (_, s)) = s"
| "outcome_state (Inr s) = s"

definition new_effects :: "state \<Rightarrow> state \<Rightarrow> effect list" where
  "new_effects s s' = drop (length (effects s)) (effects s')"

definition sweeps :: "state \<Rightarrow> nat" where
  "sweeps s = length (filter (\<lambda>x. x = BqQueryMain) (effects s))"

subsection \<open>update\_map\<close>

text \<open>
  Line 290, \<^verbatim>\<open>pt = row.Trajectory[time_index]\<close> inside \<^verbatim>\<open>try\<close>: a list is indexed
  as Python does (a negative index counts from the end); on any exception the row is
  skipped, which is \<open>None\<close> here.
\<close>

definition trajectory_at :: "traj_cell \<Rightarrow> int \<Rightarrow> point option" where
  "trajectory_at cell time_index =
     (case cell of
        TrajText _ \<Rightarrow> None
      | TrajList pts \<Rightarrow>
          (let n = int (length pts);
               j = (if time_index < 0 then n + time_index else time_index)
           in if 0 \<le> j \<and> j < n then Some (pts ! nat j) else None))"

section \<open>Example inputs\<close>

text \<open>Concrete inputs on which the theorems below are instantiated.\<close>

definition example_now :: datetime where
  "example_now = \<lparr>day = 740000, hour = 12, minute = 30, second = 0, microsecond = 0\<rparr>"

definition sat_ok :: sat_data where
  "sat_ok = [(''OBJECT_NAME'', ''ISS (ZARYA)'')]"

definition sat_partial :: sat_data where
  "sat_partial = [(''OBJECT_NAME'', ''PARTIAL'')]"

definition sat_decayed :: sat_data where
  "sat_decayed = [(''OBJECT_NAME'', ''DECAYED'')]"

definition example_arrays :: "sat_data \<Rightarrow> pyfloat list \<times> pyfloat list \<times> pyfloat list" where
  "example_arrays sat =
     (if sat = sat_decayed then (replicate 144 NaN, replicate 144 NaN, replicate 144 NaN)
      else if sat = sat_partial then
        (NaN # replicate 143 (Fin 10), NaN # replicate 143 (Fin 20), NaN # replicate 143 (Fin 400))
      else (replicate 144 (Fin (1234567 / 100000)), replicate 144 (Fin 20), replicate 144 (Fin 400)))"

definition example_lib :: skyfield where
  "example_lib =
     \<lparr>geographic_position = (\<lambda>sat ts. if sat = [] then Inl LibraryError else Inr (example_arrays sat)),
      utc_str = (\<lambda>t. replicate (nat \<lfloor>(t - of_int \<lfloor>t\<rfloor>) * 144\<rfloor>) CHR ''+'')\<rparr>"

definition example_midnight :: datetime where
  "example_midnight = \<lparr>day = 740000, hour = 0, minute = 0, second = 0, microsecond = 0\<rparr>"

definition yesterday_midnight :: datetime where
  "yesterday_midnight = \<lparr>day = 739999, hour = 0, minute = 0, second = 0, microsecond = 0\<rparr>"

definition example_row :: row where
  "example_row =
     \<lparr>Object_Name = ''ISS (ZARYA)'', Owner = ''ISS'', Orbit = ''LEO'',
      Trajectory = TrajList [\<lparr>timestamp = ''today 00:00'', lat = Fin 10, lon = Fin 20\<rparr>],
      Avg_Altitude = AltNum (Fin 400)\<rparr>"

definition example_kpi :: kpi_row where
  "example_kpi =
     \<lparr>Total_Objects = 1, Payload_Count = 1, Debris_Count = 0, Debris_Ratio_Pct = Fin 0\<rparr>"

definition example_env :: env where
  "example_env =
     \<lparr>now_utc = example_now, exists_raises = False, download_raises = False,
      read_gbq_main = Some [example_row], read_gbq_kpi = Some [example_kpi],
      upload_raises = False, json_loads = (\<lambda>t. None), parse_number = (\<lambda>t. None),
      to_datetime = (\<lambda>t. if t = ''today 00:00'' then Some example_midnight else None)\<rparr>"

definition env_upload_fails :: env where
  "env_upload_fails = example_env\<lparr>upload_raises := True\<rparr>"

definition state_empty :: state where
  "state_empty =
     \<lparr>df_main = None, df_kpi = None, timestamps = [], search_options = [], blob = None,
      effects = []\<rparr>"

definition state_stale :: state where
  "state_stale =
     \<lparr>df_main = Some [example_row], df_kpi = Some [example_kpi],
      timestamps = [yesterday_midnight], search_options = [(''ISS (ZARYA)'', ''ISS (ZARYA)'')],
      blob = None, effects = []\<rparr>"

definition fresh_pickle :: cached_data where
  "fresh_pickle =
     \<lparr>cached_main = [example_row], cached_kpi = [example_kpi], cached_ts = [example_midnight]\<rparr>"

definition state_fresh_blob :: state where
  "state_fresh_blob = state_empty\<lparr>blob := Some (Pickle fresh_pickle)\<rparr>"

definition state_unreadable_blob :: state where
  "state_unreadable_blob = state_empty\<lparr>blob := Some Unreadable\<rparr>"

definition env_later :: env where
  "env_later =
     example_env\<lparr>now_utc := \<lparr>day = 740000, hour = 23, minute = 59, second = 59, microsecond = 0\<rparr>,
                 read_gbq_main := None\<rparr>"

definition state_loaded :: state where
  "state_loaded =
     \<lparr>df_main = Some [example_row], df_kpi = Some [example_kpi],
      timestamps = [example_midnight], search_options = [(''ISS (ZARYA)'', ''ISS (ZARYA)'')],
      blob = Some (Pickle fresh_pickle), effects = [GcsExists, GcsDownload]\<rparr>"

definition state_refreshed :: state where
  "state_refreshed =
     \<lparr>df_main = Some [example_row], df_kpi = Some [example_kpi],
      timestamps = [example_midnight], search_options = [(''ISS (ZARYA)'', ''ISS (ZARYA)'')],
      blob = Some (Pickle fresh_pickle), effects = [GcsExists, BqQueryMain, BqQueryKpi, GcsUpload]\<rparr>"

definition state_recovered :: state where
  "state_recovered =
     state_refreshed\<lparr>effects := [GcsExists, GcsDownload, BqQueryMain, BqQueryKpi, GcsUpload]\<rparr>"

definition state_upload_failed :: state where
  "state_upload_failed =
     \<lparr>df_main = Some [example_row], df_kpi = Some [example_kpi],
      timestamps = [example_midnight], search_options = [],
      blob = None, effects = [GcsExists, BqQueryMain, BqQueryKpi, GcsUpload]\<rparr>"

section \<open>Properties of the time grid\<close>

lemma minutes_eq: "minutes = map (\<lambda>k. 10 * int k) [0..<144]"
  unfolding minutes_def by code_simp

lemma start_time_eq: "start_time now = of_int (date now)"
  by (simp add: start_time_def midnight_def from_datetime_def date_def)

lemma length_timeVector: "length (timeVector now) = 144"
  by (simp add: timeVector_def minutes_eq)

lemma nth_timeVector:
  "i < 144 \<Longrightarrow> timeVector now ! i = of_int (date now) + of_nat i * (10 / 1440)"
  by (simp add: timeVector_def minutes_eq start_time_eq)

lemma timeVector_increasing: "sorted_wrt (<) (timeVector now)"
  by (simp add: sorted_wrt_iff_nth_less length_timeVector nth_timeVector)

lemma timeVector_same_day: "date now' = date now \<Longrightarrow> timeVector now' = timeVector now"
  by (simp add: timeVector_def start_time_eq)

text \<open>
  Claim C6. The time grid has exactly 144 instants; instant \<open>i\<close> is the UTC midnight of
  the day of \<open>now\<close> plus \<open>i\<close> times ten minutes (10/1440 of a day), so consecutive
  instants are ten minutes apart and the grid is strictly increasing; and the grid depends
  on \<open>now\<close> through its calendar date only: two clock readings of the same UTC day give
  the same grid.
\<close>

theorem C6_time_grid:
  "length (timeVector now) = 144
   \<and> (\<forall>i<144. timeVector now ! i
         = from_datetime \<lparr>day = date now, hour = 0, minute = 0, second = 0, microsecond = 0\<rparr>
           + of_nat i * (10 / 1440))
   \<and> (\<forall>i. Suc i < 144 \<longrightarrow> timeVector now ! Suc i - timeVector now ! i = 10 / 1440)
   \<and> sorted_wrt (<) (timeVector now)
   \<and> (date now' = date now \<longrightarrow> timeVector now' = timeVector now)"
proof -
  have a: "\<forall>i<144. timeVector now ! i
         = from_datetime \<lparr>day = date now, hour = 0, minute = 0, second = 0, microsecond = 0\<rparr>
           + of_nat i * (10 / 1440)"
    by (simp add: nth_timeVector from_datetime_def)
  have b: "\<forall>i. Suc i < 144 \<longrightarrow> timeVector now ! Suc i - timeVector now ! i = 10 / 1440"
    by (simp add: nth_timeVector algebra_simps)
  show ?thesis
    using a b length_timeVector timeVector_increasing timeVector_same_day by blast
qed

text \<open>
  The grid computed at 23:59:59 and the one computed at 00:00:01 of day 740000.
\<close>

theorem C6_time_grid_witness:
  "length (timeVector \<lparr>day = 740000, hour = 23, minute = 59, second = 59, microsecond = 0\<rparr>) = 144
   \<and> timeVector \<lparr>day = 740000, hour = 23, minute = 59, second = 59, microsecond = 0\<rparr> ! 1
       = 740000 + 10 / 1440
   \<and> timeVector \<lparr>day = 740000, hour = 23, minute = 59, second = 59, microsecond = 0\<rparr> ! Suc 0
       - timeVector \<lparr>day = 740000, hour = 23, minute = 59, second = 59, microsecond = 0\<rparr> ! 0
       = 10 / 1440
   \<and> timeVector \<lparr>day = 740000, hour = 0, minute = 0, second = 1, microsecond = 0\<rparr>
       = timeVector \<lparr>day = 740000, hour = 23, minute = 59, second = 59, microsecond = 0\<rparr>"
  using C6_time_grid [of "\<lparr>day = 740000, hour = 23, minute = 59, second = 59, microsecond = 0\<rparr>"
      "\<lparr>day = 740000, hour = 0, minute = 0, second = 1, microsecond = 0\<rparr>"]
  by (simp add: date_def from_datetime_def)

section \<open>Properties of get\_position\<close>

lemma length_build_path:
  "length (build_path lib ts lats lons) = min (length ts) (min (length lats) (length lons))"
  by (induction lib ts lats lons rule: build_path.induct) auto

lemma nth_build_path:
  "i < length (build_path lib ts lats lons) \<Longrightarrow>
   build_path lib ts lats lons ! i
     = \<lparr>timestamp = utc_str lib (ts ! i), lat = round2 (lats ! i), lon = round2 (lons ! i)\<rparr>"
proof (induction lib ts lats lons arbitrary: i rule: build_path.induct)
  case (1 lib t ts la lats lo lons)
  then show ?case by (cases i) auto
qed auto

lemma foldl_fadd_Fin: "foldl fadd (Fin a) (map Fin rs) = Fin (a + sum_list rs)"
  by (induction rs arbitrary: a) (auto simp: add.assoc)

lemma foldl_fadd_NaN: "foldl fadd NaN xs = NaN"
  by (induction xs) auto

lemma fadd_NaN_right: "fadd x NaN = NaN"
  by (cases x) auto

lemma foldl_fadd_has_NaN: "NaN \<in> set xs \<Longrightarrow> foldl fadd a xs = NaN"
  by (induction xs arbitrary: a) (auto simp: foldl_fadd_NaN fadd_NaN_right)

lemma np_mean_Fin: "rs \<noteq> [] \<Longrightarrow> np_mean (map Fin rs) = Fin (sum_list rs / of_nat (length rs))"
  by (simp add: np_mean_def foldl_fadd_Fin)

lemma np_mean_has_NaN: "NaN \<in> set xs \<Longrightarrow> np_mean xs = NaN"
  by (auto simp: np_mean_def foldl_fadd_has_NaN)

lemma round2_not_finite: "\<not> is_finite x \<Longrightarrow> round2 x = x"
  by (cases x) auto

lemma example_position:
  "sat \<noteq> [] \<Longrightarrow> geographic_position example_lib sat ts = Inr (example_arrays sat)"
  by (simp add: example_lib_def)

lemma length_example_arrays:
  "length (fst (example_arrays sat)) = 144"
  "length (fst (snd (example_arrays sat))) = 144"
  "length (snd (snd (example_arrays sat))) = 144"
  by (simp_all add: example_arrays_def)

lemma get_position_example:
  "sat \<noteq> [] \<Longrightarrow>
   get_position example_lib example_now sat
     = Inr (build_path example_lib (timeVector example_now) (fst (example_arrays sat))
              (fst (snd (example_arrays sat))), np_mean (snd (snd (example_arrays sat))))"
  by (simp add: get_position_def example_position split: prod.splits)

lemma np_mean_replicate: "0 < n \<Longrightarrow> np_mean (replicate n (Fin a)) = Fin a"
  using np_mean_Fin [of "replicate n a"] by (simp add: sum_list_replicate)

lemma example_sats_nonempty: "sat_ok \<noteq> []" "sat_partial \<noteq> []" "sat_decayed \<noteq> []"
  by (simp_all add: sat_ok_def sat_partial_def sat_decayed_def)

lemma example_arrays_partial:
  "example_arrays sat_partial
     = (NaN # replicate 143 (Fin 10), NaN # replicate 143 (Fin 20), NaN # replicate 143 (Fin 400))"
  by (simp add: example_arrays_def sat_partial_def sat_decayed_def)

lemma hd_build_path:
  "ts \<noteq> [] \<Longrightarrow> lat (hd (build_path lib ts (la # lats) (lo # lons))) = round2 la"
  by (cases ts) auto

lemma timeVector_nonempty: "timeVector now \<noteq> []"
  using length_timeVector [of now] by auto

lemma get_position_Inr:
  assumes "get_position lib now sat = Inr (path, mean_alt)"
    and "geographic_position lib sat (timeVector now) = Inr (lats, lons, alts)"
  shows "path = build_path lib (timeVector now) lats lons" and "mean_alt = np_mean alts"
  using assms by (simp_all add: get_position_def)

lemma get_position_isl:
  "isl (get_position lib now sat) = isl (geographic_position lib sat (timeVector now))"
  by (simp add: get_position_def split: sum.splits prod.splits)

text \<open>
  Claim C3, as the code has it. When the library returns one latitude, longitude and
  elevation per grid instant, the returned path has one point per elevation value and the
  returned mean is \<^verbatim>\<open>np.mean\<close> of all of them: the arithmetic mean of the elevations of
  exactly the points of the path when every elevation is finite, and NaN as soon as one
  elevation is NaN. No sample is left out of the path or of the mean.
\<close>

theorem C3_mean_over_all_samples:
  assumes "get_position lib now sat = Inr (path, mean_alt)"
    and "geographic_position lib sat (timeVector now) = Inr (lats, lons, alts)"
    and "length lats = length (timeVector now)"
    and "length lons = length (timeVector now)"
    and "length alts = length (timeVector now)"
  shows "length path = length alts
    \<and> mean_alt = np_mean alts
    \<and> (\<forall>rs. alts = map Fin rs \<longrightarrow> mean_alt = Fin (sum_list rs / of_nat (length path)))
    \<and> (NaN \<in> set alts \<longrightarrow> mean_alt = NaN)"
proof -
  note gp = get_position_Inr [OF assms(1,2)]
  have len: "length path = length alts"
    using assms(3-5) by (simp add: gp(1) length_build_path)
  have "alts \<noteq> []"
    using assms(5) by (auto simp: length_timeVector)
  have "mean_alt = Fin (sum_list rs / of_nat (length path))" if "alts = map Fin rs" for rs
  proof -
    from that \<open>alts \<noteq> []\<close> have "rs \<noteq> []" by auto
    then show ?thesis
      using len that by (simp add: gp(2) np_mean_Fin)
  qed
  then show ?thesis
    using len by (simp add: gp(2) np_mean_has_NaN)
qed

lemma example_arrays_ok:
  "example_arrays sat_ok
     = (replicate 144 (Fin (1234567 / 100000)), replicate 144 (Fin 20), replicate 144 (Fin 400))"
  by (simp add: example_arrays_def sat_ok_def sat_decayed_def sat_partial_def)

lemma example_arrays_decayed:
  "example_arrays sat_decayed = (replicate 144 NaN, replicate 144 NaN, replicate 144 NaN)"
  by (simp add: example_arrays_def)

lemma get_position_ok:
  "get_position example_lib example_now sat_ok
     = Inr (build_path example_lib (timeVector example_now)
              (replicate 144 (Fin (1234567 / 100000))) (replicate 144 (Fin 20)), Fin 400)"
  by (simp add: get_position_example example_sats_nonempty example_arrays_ok np_mean_replicate)

lemma geographic_position_ok:
  "geographic_position example_lib sat_ok (timeVector example_now)
     = Inr (replicate 144 (Fin (1234567 / 100000)), replicate 144 (Fin 20), replicate 144 (Fin 400))"
  by (simp add: example_position example_sats_nonempty example_arrays_ok)

lemma get_position_partial:
  "get_position example_lib example_now sat_partial
     = Inr (build_path example_lib (timeVector example_now)
              (NaN # replicate 143 (Fin 10)) (NaN # replicate 143 (Fin 20)), NaN)"
  by (simp add: get_position_example example_sats_nonempty example_arrays_partial np_mean_has_NaN)

lemma geographic_position_partial:
  "geographic_position example_lib sat_partial (timeVector example_now)
     = Inr (NaN # replicate 143 (Fin 10), NaN # replicate 143 (Fin 20), NaN # replicate 143 (Fin 400))"
  by (simp add: example_position example_sats_nonempty example_arrays_partial)

text \<open>
  The object \<open>sat_ok\<close>: 144 samples at elevation 400 km, mean 400. The object
  \<open>sat_partial\<close>: one elevation is NaN, and so is the mean.
\<close>

theorem C3_mean_over_all_samples_witness:
  "get_position example_lib example_now sat_ok
     = Inr (build_path example_lib (timeVector example_now)
              (replicate 144 (Fin (1234567 / 100000))) (replicate 144 (Fin 20)), Fin 400)
   \<and> length (build_path example_lib (timeVector example_now)
              (replicate 144 (Fin (1234567 / 100000))) (replicate 144 (Fin 20))) = 144
   \<and> Fin 400 = np_mean (replicate 144 (Fin 400))
   \<and> Fin 400 = Fin (sum_list (replicate 144 400) / 144)
   \<and> NaN \<in> set (NaN # replicate 143 (Fin 400))
   \<and> NaN = np_mean (NaN # replicate 143 (Fin 400))"
proof -
  let ?path = "build_path example_lib (timeVector example_now)
              (replicate 144 (Fin (1234567 / 100000))) (replicate 144 (Fin 20))"
  let ?alts = "replicate 144 (Fin 400)"
  have len:
    "length (replicate 144 (Fin (1234567 / 100000))) = length (timeVector example_now)"
    "length (replicate 144 (Fin 20)) = length (timeVector example_now)"
    "length ?alts = length (timeVector example_now)"
    by (simp_all add: length_timeVector)
  note th = C3_mean_over_all_samples [OF get_position_ok geographic_position_ok len]
  from th have a: "length ?path = length ?alts"
    by (rule conjunct1)
  from th have b: "Fin 400 = np_mean ?alts"
    by blast
  from th have c: "\<forall>rs. ?alts = map Fin rs \<longrightarrow> Fin 400 = Fin (sum_list rs / of_nat (length ?path))"
    by blast
  have d: "?alts = map Fin (replicate 144 400)"
    by simp
  from c d have e: "Fin 400 = Fin (sum_list (replicate 144 400) / of_nat (length ?path))"
    by blast
  from a have f: "length ?path = 144"
    by simp
  have len':
    "length (NaN # replicate 143 (Fin 10)) = length (timeVector example_now)"
    "length (NaN # replicate 143 (Fin 20)) = length (timeVector example_now)"
    "length (NaN # replicate 143 (Fin 400)) = length (timeVector example_now)"
    by (simp_all add: length_timeVector)
  from C3_mean_over_all_samples [OF get_position_partial geographic_position_partial len']
  have g: "NaN = np_mean (NaN # replicate 143 (Fin 400))"
    by blast
  from b e f g show ?thesis
    using get_position_ok by simp
qed

text \<open>
  Claim C3 as stated fails. For \<open>sat_partial\<close> the first sample failed (NaN) and the other
  143 have elevation 400: the mean over the successful samples only is 400, the function
  returns NaN.
\<close>

theorem C3_counterexample:
  "map_sum id snd (get_position example_lib example_now sat_partial) = Inr NaN
   \<and> mean_of_successful (snd (snd (example_arrays sat_partial))) = Fin 400"
  by (simp add: get_position_example example_sats_nonempty example_arrays_partial np_mean_has_NaN
      mean_of_successful_def np_mean_replicate)

text \<open>
  Claim C4, as the code has it. When the library returns one latitude and longitude per
  grid instant, the path has one point for every grid instant, built from that instant's
  values whatever they are; a latitude or longitude that is not finite is stored
  unchanged in its point.
\<close>

theorem C4_every_sample_stored:
  assumes "get_position lib now sat = Inr (path, mean_alt)"
    and "geographic_position lib sat (timeVector now) = Inr (lats, lons, alts)"
    and "length lats = length (timeVector now)"
    and "length lons = length (timeVector now)"
  shows "length path = length (timeVector now)
    \<and> (\<forall>i<length path.
          path ! i = \<lparr>timestamp = utc_str lib (timeVector now ! i),
                      lat = round2 (lats ! i), lon = round2 (lons ! i)\<rparr>)
    \<and> (\<forall>i<length path. \<not> is_finite (lats ! i) \<longrightarrow> lat (path ! i) = lats ! i)
    \<and> (\<forall>i<length path. \<not> is_finite (lons ! i) \<longrightarrow> lon (path ! i) = lons ! i)"
proof -
  note gp = get_position_Inr [OF assms(1,2)]
  have len: "length path = length (timeVector now)"
    using assms(3,4) by (simp add: gp(1) length_build_path)
  have pt: "\<forall>i<length path.
          path ! i = \<lparr>timestamp = utc_str lib (timeVector now ! i),
                      lat = round2 (lats ! i), lon = round2 (lons ! i)\<rparr>"
    by (simp add: gp(1) nth_build_path)
  then show ?thesis
    using len by (simp add: round2_not_finite)
qed

lemma utc_str_example:
  "i < 144 \<Longrightarrow> utc_str example_lib (timeVector example_now ! i) = replicate i CHR ''+''"
proof -
  assume i: "i < 144"
  have "\<lfloor>740000 + rat_of_nat i * (10 / 1440)\<rfloor> = 740000"
    using i by (simp add: floor_unique)
  then show ?thesis
    using i by (simp add: nth_timeVector example_lib_def example_now_def date_def)
qed

text \<open>
  The object \<open>sat_partial\<close>: 144 points, the first one holding the failed sample.
\<close>

theorem C4_every_sample_stored_witness:
  "length (build_path example_lib (timeVector example_now)
              (NaN # replicate 143 (Fin 10)) (NaN # replicate 143 (Fin 20))) = 144
   \<and> build_path example_lib (timeVector example_now)
              (NaN # replicate 143 (Fin 10)) (NaN # replicate 143 (Fin 20)) ! 0
       = \<lparr>timestamp = [], lat = NaN, lon = NaN\<rparr>
   \<and> lat (build_path example_lib (timeVector example_now)
              (NaN # replicate 143 (Fin 10)) (NaN # replicate 143 (Fin 20)) ! 0) = NaN"
proof -
  let ?lats = "NaN # replicate 143 (Fin 10)"
  let ?lons = "NaN # replicate 143 (Fin 20)"
  let ?path = "build_path example_lib (timeVector example_now) ?lats ?lons"
  have len:
    "length ?lats = length (timeVector example_now)"
    "length ?lons = length (timeVector example_now)"
    by (simp_all add: length_timeVector)
  note th = C4_every_sample_stored [OF get_position_partial geographic_position_partial len]
  from th have a: "length ?path = 144"
    by (simp add: length_timeVector)
  from th have "\<forall>i<length ?path. ?path ! i
      = \<lparr>timestamp = utc_str example_lib (timeVector example_now ! i),
         lat = round2 (?lats ! i), lon = round2 (?lons ! i)\<rparr>"
    by blast
  with a have b: "?path ! 0 = \<lparr>timestamp = [], lat = NaN, lon = NaN\<rparr>"
    by (simp add: utc_str_example)
  from th have "\<forall>i<length ?path. \<not> is_finite (?lats ! i) \<longrightarrow> lat (?path ! i) = ?lats ! i"
    by blast
  with a have "lat (?path ! 0) = NaN"
    by simp
  with a b show ?thesis
    by blast
qed

text \<open>
  Claim C4 as stated fails. For \<open>sat_partial\<close> the first sample is not finite, and the
  returned path still has 144 points, the first of them with latitude NaN.
\<close>

theorem C4_counterexample:
  "map_sum id (length \<circ> fst) (get_position example_lib example_now sat_partial) = Inr 144
   \<and> map_sum id (lat \<circ> hd \<circ> fst) (get_position example_lib example_now sat_partial) = Inr NaN
   \<and> \<not> is_finite (hd (fst (example_arrays sat_partial)))"
  by (simp add: get_position_partial length_build_path length_timeVector hd_build_path
      timeVector_nonempty example_arrays_partial)


lemma sweep_filter:
  "sweep lib now sats
     = map (\<lambda>sat. (sat, projr (get_position lib now sat)))
         (filter (\<lambda>sat. \<not> isl (get_position lib now sat)) sats)"
  by (induction sats) (auto split: sum.splits)

text \<open>
  Claim C5, as the code has it. \<open>get_position\<close> signals a failure exactly when the library
  call raises; it has no count of successful samples. In the sweep (modelled from the
  specification) the objects whose call raises are excluded, and every other object is
  present with the result of its own call, in catalog order, whatever happened to the
  objects before it.
\<close>

theorem C5_sweep_excludes_raising_objects:
  "isl (get_position lib now sat) = isl (geographic_position lib sat (timeVector now))
   \<and> sweep lib now sats
       = map (\<lambda>sat. (sat, projr (get_position lib now sat)))
           (filter (\<lambda>sat. \<not> isl (geographic_position lib sat (timeVector now))) sats)"
  by (simp add: sweep_filter get_position_isl)

lemma get_position_decayed:
  "get_position example_lib example_now sat_decayed
     = Inr (build_path example_lib (timeVector example_now) (replicate 144 NaN) (replicate 144 NaN),
            NaN)"
  by (simp add: get_position_example example_sats_nonempty example_arrays_decayed np_mean_has_NaN)

text \<open>
  Claim C5 as stated fails. For \<open>sat_decayed\<close> no sample succeeds (every elevation is NaN),
  yet \<open>get_position\<close> returns a path of 144 points instead of signalling, and the sweep
  keeps the object.
\<close>

theorem C5_counterexample:
  "filter is_finite (snd (snd (example_arrays sat_decayed))) = []
   \<and> map_sum id (length \<circ> fst) (get_position example_lib example_now sat_decayed) = Inr 144
   \<and> map fst (sweep example_lib example_now [sat_decayed, sat_ok]) = [sat_decayed, sat_ok]"
  by (simp add: example_arrays_decayed get_position_decayed get_position_ok length_build_path
      length_timeVector)

text \<open>
  An element set with no field makes the library call raise: the object is excluded, the
  next one is kept.
\<close>

theorem C5_sweep_excludes_raising_objects_witness:
  "isl (get_position example_lib example_now [])
   \<and> \<not> isl (get_position example_lib example_now sat_ok)
   \<and> map fst (sweep example_lib example_now [[], sat_ok]) = [sat_ok]"
proof -
  have g: "isl (geographic_position example_lib [] (timeVector example_now))"
    "\<not> isl (geographic_position example_lib sat_ok (timeVector example_now))"
    by (simp_all add: example_lib_def sat_ok_def)
  from C5_sweep_excludes_raising_objects [of example_lib example_now "[]" "[[], sat_ok]"] g
  have "isl (get_position example_lib example_now [])"
    and "map fst (sweep example_lib example_now [[], sat_ok]) = [sat_ok]"
    by (simp_all add: comp_def)
  moreover from C5_sweep_excludes_raising_objects [of example_lib example_now sat_ok "[]"] g
  have "\<not> isl (get_position example_lib example_now sat_ok)"
    by simp
  ultimately show ?thesis
    by simp
qed

lemma timestamps_build_path:
  "map timestamp (build_path lib ts lats lons)
     = take (length (build_path lib ts lats lons)) (map (utc_str lib) ts)"
  by (induction lib ts lats lons rule: build_path.induct) auto

lemma trajectory_at_nth:
  "i < length pts \<Longrightarrow> trajectory_at (TrajList pts) (int i) = Some (pts ! i)"
  by (simp add: trajectory_at_def)

text \<open>
  Claim C8. A path returned by \<open>get_position\<close> is no longer than the grid; its point at
  index \<open>i\<close> carries the timestamp of grid instant \<open>i\<close>, and the lookup of
  \<^verbatim>\<open>update_map\<close> at index \<open>i\<close> returns that point without comparing timestamps; the
  timestamps of the path are a prefix of the grid's, so each is a grid timestamp and they
  come in grid order.
\<close>

theorem C8_trajectory_aligned_with_grid:
  assumes "get_position lib now sat = Inr (path, mean_alt)"
  shows "length path \<le> length (timeVector now)
    \<and> (\<forall>i<length path.
          timestamp (path ! i) = utc_str lib (timeVector now ! i)
          \<and> trajectory_at (TrajList path) (int i) = Some (path ! i))
    \<and> map timestamp path = take (length path) (map (utc_str lib) (timeVector now))
    \<and> set (map timestamp path) \<subseteq> utc_str lib ` set (timeVector now)"
proof -
  obtain lats lons alts
    where geo: "geographic_position lib sat (timeVector now) = Inr (lats, lons, alts)"
    using assms by (auto simp: get_position_def split: sum.splits)
  note gp = get_position_Inr [OF assms geo]
  have len: "length path \<le> length (timeVector now)"
    by (simp add: gp(1) length_build_path)
  have nth: "\<forall>i<length path.
          timestamp (path ! i) = utc_str lib (timeVector now ! i)
          \<and> trajectory_at (TrajList path) (int i) = Some (path ! i)"
    by (simp add: gp(1) nth_build_path trajectory_at_nth)
  have tk: "map timestamp path = take (length path) (map (utc_str lib) (timeVector now))"
    unfolding gp(1) by (rule timestamps_build_path)
  have "set (map timestamp path) \<subseteq> set (map (utc_str lib) (timeVector now))"
    by (subst tk) (rule set_take_subset)
  then show ?thesis
    using len nth tk by simp
qed

text \<open>
  The object \<open>sat_ok\<close>: the point at index 2 carries the timestamp of the third instant.
\<close>

theorem C8_trajectory_aligned_with_grid_witness:
  "length (build_path example_lib (timeVector example_now)
              (replicate 144 (Fin (1234567 / 100000))) (replicate 144 (Fin 20))) \<le> 144
   \<and> timestamp (build_path example_lib (timeVector example_now)
              (replicate 144 (Fin (1234567 / 100000))) (replicate 144 (Fin 20)) ! 2) = ''++''
   \<and> trajectory_at (TrajList (build_path example_lib (timeVector example_now)
              (replicate 144 (Fin (1234567 / 100000))) (replicate 144 (Fin 20)))) 2
       = Some \<lparr>timestamp = ''++'', lat = Fin (1235 / 100), lon = Fin 20\<rparr>"
proof -
  let ?lats = "replicate 144 (Fin (1234567 / 100000))"
  let ?lons = "replicate 144 (Fin 20)"
  let ?path = "build_path example_lib (timeVector example_now) ?lats ?lons"
  note th = C8_trajectory_aligned_with_grid [OF get_position_ok]
  have l: "length ?path = 144"
    by (simp add: length_build_path length_timeVector)
  from th have a: "length ?path \<le> 144"
    by (simp add: length_timeVector)
  from th have "\<forall>i<length ?path.
          timestamp (?path ! i) = utc_str example_lib (timeVector example_now ! i)
          \<and> trajectory_at (TrajList ?path) (int i) = Some (?path ! i)"
    by blast
  then have "2 < length ?path \<longrightarrow>
          timestamp (?path ! 2) = utc_str example_lib (timeVector example_now ! 2)
          \<and> trajectory_at (TrajList ?path) (int 2) = Some (?path ! 2)"
    by (rule spec)
  with l have b: "timestamp (?path ! 2) = utc_str example_lib (timeVector example_now ! 2)"
    and c: "trajectory_at (TrajList ?path) 2 = Some (?path ! 2)"
    by simp_all
  have r: "round2 (Fin (1234567 / 100000)) = Fin (1235 / 100)"
    by code_simp
  have r': "round2 (Fin 20) = Fin 20"
    by code_simp
  have u: "utc_str example_lib (timeVector example_now ! 2) = ''++''"
    using utc_str_example [of 2] by (simp add: numeral_2_eq_2)
  have "?path ! 2 = \<lparr>timestamp = ''++'', lat = Fin (1235 / 100), lon = Fin 20\<rparr>"
    using l r r' u by (simp add: nth_build_path del: round2.simps)
  with a b c u show ?thesis
    by simp
qed

section \<open>Properties of load\_data\_smart\<close>

lemma effects_called [simp]: "effects (called x s) = effects s @ [x]"
  by (simp add: called_def)

lemma called_fields [simp]:
  "df_main (called x s) = df_main s" "df_kpi (called x s) = df_kpi s"
  "timestamps (called x s) = timestamps s" "search_options (called x s) = search_options s"
  "blob (called x s) = blob s"
  by (simp_all add: called_def)

lemma new_effects_append: "effects s' = effects s @ xs \<Longrightarrow> new_effects s s' = xs"
  by (simp add: new_effects_def)

lemma sweeps_append:
  "effects s' = effects s @ xs \<Longrightarrow> sweeps s' = sweeps s + length (filter (\<lambda>x. x = BqQueryMain) xs)"
  by (simp add: sweeps_def)

lemma refresh_Inr:
  assumes "refresh_from_bigquery e s = Inr s'"
  shows "df_main s' \<noteq> None" and "effects s' = effects s @ [BqQueryMain, BqQueryKpi, GcsUpload]"
    and "\<not> upload_raises e"
  using assms
  by (auto simp: refresh_from_bigquery_def Let_def split: option.splits if_splits)

lemma refresh_Inl:
  assumes "refresh_from_bigquery e s = Inl (a, s')"
  shows "a = SystemExit 1" and "blob s' = blob s"
    and "effects s' = effects s @ [BqQueryMain] \<or> effects s' = effects s @ [BqQueryMain, BqQueryKpi]
         \<or> effects s' = effects s @ [BqQueryMain, BqQueryKpi, GcsUpload]"
  using assms
  by (auto simp: refresh_from_bigquery_def Let_def split: option.splits if_splits)

lemma refresh_upload_raises:
  "upload_raises e \<Longrightarrow> \<exists>s'. refresh_from_bigquery e s = Inl (SystemExit 1, s')"
  by (auto simp: refresh_from_bigquery_def Let_def split: option.splits)

lemma refresh_effects:
  "\<exists>xs. effects (outcome_state (refresh_from_bigquery e s)) = effects s @ BqQueryMain # xs
        \<and> BqQueryMain \<notin> set xs"
proof (cases "refresh_from_bigquery e s")
  case (Inl p)
  then obtain a s' where "refresh_from_bigquery e s = Inl (a, s')" by (cases p) auto
  from refresh_Inl(3) [OF this] Inl this show ?thesis by auto
next
  case (Inr s')
  from refresh_Inr(2) [OF this] Inr show ?thesis by auto
qed

lemma load_cases:
  obtains
    (ram) "df_main s \<noteq> None" "load_data_smart e s = Inr s"
  | (probe) "df_main s = None" "exists_raises e"
      "load_data_smart e s = Inl (Uncaught LibraryError, called GcsExists s)"
  | (fresh) c where "df_main s = None" "\<not> exists_raises e" "\<not> download_raises e"
      "blob s = Some (Pickle c)" "is_fresh (cached_ts c) (date (now_utc e))"
      "load_data_smart e s = Inr (load_cached c (called GcsDownload (called GcsExists s)))"
  | (refresh) s1 where "df_main s = None" "\<not> exists_raises e"
      "effects s1 = effects s @ [GcsExists] \<or> effects s1 = effects s @ [GcsExists, GcsDownload]"
      "blob s1 = blob s" "load_data_smart e s = refresh_from_bigquery e s1"
proof (cases "df_main s \<noteq> None")
  case True
  then show ?thesis using ram by (simp add: load_data_smart_def)
next
  case noram: False
  show ?thesis
  proof (cases "exists_raises e")
    case True
    then show ?thesis using probe noram by (simp add: load_data_smart_def)
  next
    case ex: False
    show ?thesis
    proof (cases "blob s")
      case None
      then show ?thesis
        using refresh [of "called GcsExists s"] noram ex by (simp add: load_data_smart_def)
    next
      case (Some content)
      show ?thesis
      proof (cases "\<not> download_raises e \<and> (\<exists>c. content = Pickle c \<and> is_fresh (cached_ts c) (date (now_utc e)))")
        case True
        then show ?thesis
          using fresh noram ex Some by (auto simp: load_data_smart_def Let_def)
      next
        case False
        then have "load_data_smart e s
            = refresh_from_bigquery e (called GcsDownload (called GcsExists s))"
          using noram ex Some by (auto simp: load_data_smart_def Let_def split: blob_content.splits)
        then show ?thesis
          using refresh [of "called GcsDownload (called GcsExists s)"] noram ex by simp
      qed
    qed
  qed
qed

lemma load_ram_hit: "df_main s \<noteq> None \<Longrightarrow> load_data_smart e s = Inr s"
  by (simp add: load_data_smart_def)

lemma load_Inr_df_main: "load_data_smart e s = Inr s' \<Longrightarrow> df_main s' \<noteq> None"
proof (cases e s rule: load_cases)
  case ram
  then show "load_data_smart e s = Inr s' \<Longrightarrow> df_main s' \<noteq> None" by auto
next
  case probe
  then show "load_data_smart e s = Inr s' \<Longrightarrow> df_main s' \<noteq> None" by auto
next
  case (fresh c)
  then show "load_data_smart e s = Inr s' \<Longrightarrow> df_main s' \<noteq> None"
    by (auto simp: load_cached_def)
next
  case (refresh s1)
  then show "load_data_smart e s = Inr s' \<Longrightarrow> df_main s' \<noteq> None"
    using refresh_Inr(1) [of e s1 s'] by auto
qed

lemma is_fresh_served_date:
  "is_fresh (cached_ts c) d \<Longrightarrow> served_date (load_cached c s) = Some d"
  by (auto simp: is_fresh_def served_date_def load_cached_def split: list.splits)

lemma load_cached_fields:
  "df_main (load_cached c s) = Some (cached_main c)"
  "df_kpi (load_cached c s) = Some (cached_kpi c)"
  "timestamps (load_cached c s) = cached_ts c"
  "blob (load_cached c s) = blob s"
  "effects (load_cached c s) = effects s"
  by (simp_all add: load_cached_def)

lemma refresh_new_effects:
  assumes "effects s1 = effects s @ xs"
  shows "BqQueryMain \<in> set (new_effects s (outcome_state (refresh_from_bigquery e s1)))"
proof -
  obtain ys where "effects (outcome_state (refresh_from_bigquery e s1)) = effects s1 @ BqQueryMain # ys"
    using refresh_effects [of e s1] by blast
  then have "effects (outcome_state (refresh_from_bigquery e s1)) = effects s @ (xs @ BqQueryMain # ys)"
    using assms by simp
  from new_effects_append [OF this] show ?thesis by simp
qed

text \<open>
  Claim C1, as the code has it. A call that finds the in-memory entry returns it
  unchanged, whatever its date: no date is tested and nothing is recomputed. A call that
  finds the memory empty and succeeds without querying the warehouse has loaded the
  persisted snapshot, and then the snapshot it serves is dated today.
\<close>

theorem C1_served_date:
  assumes "load_data_smart e s = Inr s'"
  shows "(df_main s \<noteq> None \<longrightarrow> s' = s)
    \<and> (df_main s = None \<longrightarrow> BqQueryMain \<notin> set (new_effects s s') \<longrightarrow>
         served_date s' = Some (date (now_utc e))
         \<and> (\<exists>c. blob s = Some (Pickle c) \<and> df_main s' = Some (cached_main c)
                \<and> timestamps s' = cached_ts c))"
proof (cases e s rule: load_cases)
  case ram
  then show ?thesis using assms by auto
next
  case probe
  then show ?thesis using assms by simp
next
  case (fresh c)
  then have "s' = load_cached c (called GcsDownload (called GcsExists s))"
    using assms by simp
  then show ?thesis
    using fresh by (simp add: is_fresh_served_date load_cached_fields)
next
  case (refresh s1)
  then obtain xs where "effects s1 = effects s @ xs"
    by auto
  have r: "refresh_from_bigquery e s1 = Inr s'"
    using refresh(5) assms by simp
  from refresh_new_effects [OF \<open>effects s1 = effects s @ xs\<close>, of e]
  have "BqQueryMain \<in> set (new_effects s s')"
    by (simp add: r)
  then show ?thesis
    using refresh(1) by simp
qed

text \<open>
  Claim C7. After a call that returned, a second call on the same UTC day returns the
  very same state, hence the same date and the same trajectories, and queries nothing;
  over the two calls the warehouse is queried for the catalog at most once.
\<close>

theorem C7_idempotent:
  assumes "load_data_smart e1 s0 = Inr s1"
    and "date (now_utc e2) = date (now_utc e1)"
  shows "load_data_smart e2 s1 = Inr s1 \<and> sweeps s1 \<le> sweeps s0 + 1"
proof -
  have again: "load_data_smart e2 s1 = Inr s1"
    using load_Inr_df_main [OF assms(1)] by (rule load_ram_hit)
  have "sweeps s1 \<le> sweeps s0 + 1"
  proof (cases e1 s0 rule: load_cases)
    case ram
    then show ?thesis using assms(1) by simp
  next
    case probe
    then show ?thesis using assms(1) by simp
  next
    case (fresh c)
    then have "effects s1 = effects s0 @ [GcsExists, GcsDownload]"
      using assms(1) by (auto simp: load_cached_fields)
    from sweeps_append [OF this] show ?thesis by simp
  next
    case (refresh sx)
    then have r: "refresh_from_bigquery e1 sx = Inr s1"
      using assms(1) by simp
    from refresh(3) have "sweeps sx = sweeps s0"
      using sweeps_append [of sx s0] by auto
    moreover from sweeps_append [OF refresh_Inr(2) [OF r]] have "sweeps s1 = sweeps sx + 1"
      by simp
    ultimately show ?thesis by simp
  qed
  with again show ?thesis by simp
qed

text \<open>
  Claim C10. A call that finds the in-memory entry returns the state unchanged. A call
  that finds the memory empty and a fresh pickle in the store returns with the stored
  object as it was, having made the existence probe and the download and no other call.
  In general, however a call ends, if it did not query the warehouse then it made no
  upload and the stored object is what it was: the store is written on the warehouse
  path only.
\<close>

theorem C10_writes_only_on_refresh:
  "(df_main s \<noteq> None \<longrightarrow> load_data_smart e s = Inr s)
   \<and> (\<forall>c. df_main s = None \<and> \<not> exists_raises e \<and> \<not> download_raises e
          \<and> blob s = Some (Pickle c) \<and> is_fresh (cached_ts c) (date (now_utc e)) \<longrightarrow>
          (\<exists>s'. load_data_smart e s = Inr s' \<and> blob s' = blob s
                \<and> new_effects s s' = [GcsExists, GcsDownload]))
   \<and> (BqQueryMain \<notin> set (new_effects s (outcome_state (load_data_smart e s))) \<longrightarrow>
         blob (outcome_state (load_data_smart e s)) = blob s
         \<and> GcsUpload \<notin> set (new_effects s (outcome_state (load_data_smart e s))))"
proof (intro conjI allI impI)
  assume "df_main s \<noteq> None"
  then show "load_data_smart e s = Inr s"
    by (rule load_ram_hit)
next
  fix c
  assume "df_main s = None \<and> \<not> exists_raises e \<and> \<not> download_raises e
          \<and> blob s = Some (Pickle c) \<and> is_fresh (cached_ts c) (date (now_utc e))"
  then have "load_data_smart e s = Inr (load_cached c (called GcsDownload (called GcsExists s)))"
    by (simp add: load_data_smart_def Let_def)
  then show "\<exists>s'. load_data_smart e s = Inr s' \<and> blob s' = blob s
                \<and> new_effects s s' = [GcsExists, GcsDownload]"
    by (simp add: load_cached_fields new_effects_def)
next
  assume no_query: "BqQueryMain \<notin> set (new_effects s (outcome_state (load_data_smart e s)))"
  have "blob (outcome_state (load_data_smart e s)) = blob s
    \<and> GcsUpload \<notin> set (new_effects s (outcome_state (load_data_smart e s)))"
  proof (cases e s rule: load_cases)
    case ram
    then show ?thesis by (simp add: new_effects_def)
  next
    case probe
    then show ?thesis by (simp add: new_effects_def)
  next
    case (fresh c)
    then show ?thesis by (simp add: new_effects_def load_cached_fields)
  next
    case (refresh s1)
    then obtain xs where "effects s1 = effects s @ xs"
      by auto
    from refresh_new_effects [OF this, of e] show ?thesis
      using no_query by (simp add: refresh(5))
  qed
  then show "blob (outcome_state (load_data_smart e s)) = blob s"
    and "GcsUpload \<notin> set (new_effects s (outcome_state (load_data_smart e s)))"
    by simp_all
qed

lemma load_degrades:
  assumes "df_main s = None" and "\<not> exists_raises e" and "blob s = Some b"
    and "download_raises e \<or> b = Unreadable"
  shows "load_data_smart e s = refresh_from_bigquery e (called GcsDownload (called GcsExists s))"
  using assms by (auto simp: load_data_smart_def Let_def)

lemma refresh_prepared:
  assumes "read_gbq_main e = Some rows" and "decode_trajectories e rows = Some decoded"
    and "read_gbq_kpi e = Some kpi"
    and "first_timestamps e (map (\<lambda>r. r\<lparr>Avg_Altitude := to_numeric e (Avg_Altitude r)\<rparr>) decoded)
           = Some ts"
  shows "refresh_from_bigquery e s =
     (let frame = map (\<lambda>r. r\<lparr>Avg_Altitude := to_numeric e (Avg_Altitude r)\<rparr>) decoded;
          s5 = s\<lparr>df_main := Some frame, df_kpi := Some kpi, timestamps := ts,
                 effects := effects s @ [BqQueryMain, BqQueryKpi, GcsUpload]\<rparr>
      in if upload_raises e then Inl (SystemExit 1, s5)
         else Inr (s5\<lparr>blob := Some (Pickle \<lparr>cached_main = frame, cached_kpi = kpi, cached_ts = ts\<rparr>),
                       search_options := options_of frame\<rparr>))"
  using assms by (simp add: refresh_from_bigquery_def Let_def called_def)

lemma refresh_Inr_prepared:
  assumes "refresh_from_bigquery e s = Inr s'"
  shows "\<exists>rows decoded kpi ts.
      read_gbq_main e = Some rows \<and> decode_trajectories e rows = Some decoded
      \<and> read_gbq_kpi e = Some kpi
      \<and> first_timestamps e (map (\<lambda>r. r\<lparr>Avg_Altitude := to_numeric e (Avg_Altitude r)\<rparr>) decoded)
           = Some ts"
  using assms
  by (auto simp: refresh_from_bigquery_def Let_def split: option.splits if_splits)

text \<open>
  Claim C2, as the code has it. With the memory empty and the existence probe answered,
  a download that raises or bytes that cannot be unpickled lead to the download from the
  warehouse, and the call ends as that download ends. When both queries answer, the
  trajectories decode and the timestamps parse, the call returns if the upload works:
  the globals hold the prepared frame, the indicators and the timestamps, and the store
  holds their pickle. If the upload raises the call ends in \<^verbatim>\<open>sys.exit(1)\<close> with the
  same globals already assigned and the stored object as it was. The call returns in no
  other case, every other ending is \<^verbatim>\<open>sys.exit(1)\<close>, and then the stored object is
  unchanged.
\<close>

theorem C2_read_failure_degrades:
  assumes "df_main s = None" and "\<not> exists_raises e" and "blob s = Some b"
    and "download_raises e \<or> b = Unreadable"
  shows "load_data_smart e s = refresh_from_bigquery e (called GcsDownload (called GcsExists s))
    \<and> (upload_raises e \<longrightarrow> (\<exists>s'. load_data_smart e s = Inl (SystemExit 1, s')))
    \<and> (\<forall>rows decoded kpi ts.
          read_gbq_main e = Some rows \<and> decode_trajectories e rows = Some decoded
          \<and> read_gbq_kpi e = Some kpi
          \<and> first_timestamps e
               (map (\<lambda>r. r\<lparr>Avg_Altitude := to_numeric e (Avg_Altitude r)\<rparr>) decoded) = Some ts
          \<longrightarrow>
          (let frame = map (\<lambda>r. r\<lparr>Avg_Altitude := to_numeric e (Avg_Altitude r)\<rparr>) decoded in
           if upload_raises e then
             \<exists>s'. load_data_smart e s = Inl (SystemExit 1, s')
               \<and> df_main s' = Some frame \<and> df_kpi s' = Some kpi \<and> timestamps s' = ts
               \<and> blob s' = blob s
           else
             \<exists>s'. load_data_smart e s = Inr s'
               \<and> df_main s' = Some frame \<and> df_kpi s' = Some kpi \<and> timestamps s' = ts
               \<and> search_options s' = options_of frame
               \<and> blob s' = Some (Pickle \<lparr>cached_main = frame, cached_kpi = kpi, cached_ts = ts\<rparr>)
               \<and> effects s'
                   = effects s @ [GcsExists, GcsDownload, BqQueryMain, BqQueryKpi, GcsUpload]))
    \<and> ((\<exists>s'. load_data_smart e s = Inr s') \<longrightarrow>
          \<not> upload_raises e
          \<and> (\<exists>rows decoded kpi ts.
                read_gbq_main e = Some rows \<and> decode_trajectories e rows = Some decoded
                \<and> read_gbq_kpi e = Some kpi
                \<and> first_timestamps e
                     (map (\<lambda>r. r\<lparr>Avg_Altitude := to_numeric e (Avg_Altitude r)\<rparr>) decoded)
                   = Some ts))
    \<and> (\<forall>a s'. load_data_smart e s = Inl (a, s') \<longrightarrow> a = SystemExit 1 \<and> blob s' = blob s)"
proof -
  let ?s2 = "called GcsDownload (called GcsExists s)"
  have deg: "load_data_smart e s = refresh_from_bigquery e ?s2"
    using assms by (rule load_degrades)
  have up: "upload_raises e \<longrightarrow> (\<exists>s'. load_data_smart e s = Inl (SystemExit 1, s'))"
    using refresh_upload_raises [of e ?s2] by (simp add: deg)
  have ok: "\<forall>rows decoded kpi ts.
          read_gbq_main e = Some rows \<and> decode_trajectories e rows = Some decoded
          \<and> read_gbq_kpi e = Some kpi
          \<and> first_timestamps e
               (map (\<lambda>r. r\<lparr>Avg_Altitude := to_numeric e (Avg_Altitude r)\<rparr>) decoded) = Some ts
          \<longrightarrow>
          (let frame = map (\<lambda>r. r\<lparr>Avg_Altitude := to_numeric e (Avg_Altitude r)\<rparr>) decoded in
           if upload_raises e then
             \<exists>s'. load_data_smart e s = Inl (SystemExit 1, s')
               \<and> df_main s' = Some frame \<and> df_kpi s' = Some kpi \<and> timestamps s' = ts
               \<and> blob s' = blob s
           else
             \<exists>s'. load_data_smart e s = Inr s'
               \<and> df_main s' = Some frame \<and> df_kpi s' = Some kpi \<and> timestamps s' = ts
               \<and> search_options s' = options_of frame
               \<and> blob s' = Some (Pickle \<lparr>cached_main = frame, cached_kpi = kpi, cached_ts = ts\<rparr>)
               \<and> effects s'
                   = effects s @ [GcsExists, GcsDownload, BqQueryMain, BqQueryKpi, GcsUpload])"
  proof (intro allI impI)
    fix rows decoded kpi ts
    assume prem: "read_gbq_main e = Some rows \<and> decode_trajectories e rows = Some decoded
          \<and> read_gbq_kpi e = Some kpi
          \<and> first_timestamps e
               (map (\<lambda>r. r\<lparr>Avg_Altitude := to_numeric e (Avg_Altitude r)\<rparr>) decoded) = Some ts"
    then have p: "read_gbq_main e = Some rows" "decode_trajectories e rows = Some decoded"
      "read_gbq_kpi e = Some kpi"
      "first_timestamps e
         (map (\<lambda>r. r\<lparr>Avg_Altitude := to_numeric e (Avg_Altitude r)\<rparr>) decoded) = Some ts"
      by simp_all
    have "refresh_from_bigquery e ?s2 =
     (let frame = map (\<lambda>r. r\<lparr>Avg_Altitude := to_numeric e (Avg_Altitude r)\<rparr>) decoded;
          s5 = ?s2\<lparr>df_main := Some frame, df_kpi := Some kpi, timestamps := ts,
                 effects := effects ?s2 @ [BqQueryMain, BqQueryKpi, GcsUpload]\<rparr>
      in if upload_raises e then Inl (SystemExit 1, s5)
         else Inr (s5\<lparr>blob := Some (Pickle \<lparr>cached_main = frame, cached_kpi = kpi, cached_ts = ts\<rparr>),
                       search_options := options_of frame\<rparr>))"
      by (rule refresh_prepared [OF p])
    then show "let frame = map (\<lambda>r. r\<lparr>Avg_Altitude := to_numeric e (Avg_Altitude r)\<rparr>) decoded in
           if upload_raises e then
             \<exists>s'. load_data_smart e s = Inl (SystemExit 1, s')
               \<and> df_main s' = Some frame \<and> df_kpi s' = Some kpi \<and> timestamps s' = ts
               \<and> blob s' = blob s
           else
             \<exists>s'. load_data_smart e s = Inr s'
               \<and> df_main s' = Some frame \<and> df_kpi s' = Some kpi \<and> timestamps s' = ts
               \<and> search_options s' = options_of frame
               \<and> blob s' = Some (Pickle \<lparr>cached_main = frame, cached_kpi = kpi, cached_ts = ts\<rparr>)
               \<and> effects s'
                   = effects s @ [GcsExists, GcsDownload, BqQueryMain, BqQueryKpi, GcsUpload]"
      by (simp add: deg Let_def)
  qed
  have only: "(\<exists>s'. load_data_smart e s = Inr s') \<longrightarrow>
          \<not> upload_raises e
          \<and> (\<exists>rows decoded kpi ts.
                read_gbq_main e = Some rows \<and> decode_trajectories e rows = Some decoded
                \<and> read_gbq_kpi e = Some kpi
                \<and> first_timestamps e
                     (map (\<lambda>r. r\<lparr>Avg_Altitude := to_numeric e (Avg_Altitude r)\<rparr>) decoded)
                   = Some ts)"
    using refresh_Inr(3) [of e ?s2] refresh_Inr_prepared [of e ?s2] by (auto simp: deg)
  have ab: "\<forall>a s'. load_data_smart e s = Inl (a, s') \<longrightarrow> a = SystemExit 1 \<and> blob s' = blob s"
    using refresh_Inl(1,2) [of e ?s2] by (auto simp: deg)
  from deg up ok only ab show ?thesis
    by blast
qed

lemmas example_states =
  state_empty_def state_stale_def state_fresh_blob_def state_unreadable_blob_def
  state_loaded_def state_refreshed_def state_recovered_def state_upload_failed_def
  fresh_pickle_def

lemma example_env_fields:
  "now_utc example_env = example_now" "\<not> exists_raises example_env"
  "\<not> download_raises example_env" "read_gbq_main example_env = Some [example_row]"
  "read_gbq_kpi example_env = Some [example_kpi]" "\<not> upload_raises example_env"
  "to_datetime example_env ''today 00:00'' = Some example_midnight"
  by (simp_all add: example_env_def)

lemma env_upload_fails_fields:
  "now_utc env_upload_fails = example_now" "\<not> exists_raises env_upload_fails"
  "\<not> download_raises env_upload_fails" "read_gbq_main env_upload_fails = Some [example_row]"
  "read_gbq_kpi env_upload_fails = Some [example_kpi]" "upload_raises env_upload_fails"
  "to_datetime env_upload_fails ''today 00:00'' = Some example_midnight"
  by (simp_all add: env_upload_fails_def example_env_def)

lemma example_frame:
  "decode_trajectories e [example_row] = Some [example_row]"
  "example_row\<lparr>Avg_Altitude := to_numeric e (Avg_Altitude example_row)\<rparr> = example_row"
  "to_datetime e ''today 00:00'' = Some example_midnight \<Longrightarrow>
     first_timestamps e [example_row] = Some [example_midnight]"
  "options_of [example_row] = [(''ISS (ZARYA)'', ''ISS (ZARYA)'')]"
  by (simp_all add: decode_trajectories_def first_timestamps_def options_of_def example_row_def)

lemma load_fresh_example: "load_data_smart example_env state_fresh_blob = Inr state_loaded"
  by (simp add: load_data_smart_def example_states example_env_fields is_fresh_def
      load_cached_def called_def example_frame example_now_def example_midnight_def date_def)

lemma load_empty_example: "load_data_smart example_env state_empty = Inr state_refreshed"
  by (simp add: load_data_smart_def refresh_from_bigquery_def example_states example_env_fields
      called_def example_frame Let_def)

lemma load_unreadable_example:
  "load_data_smart example_env state_unreadable_blob = Inr state_recovered"
  by (simp add: load_data_smart_def refresh_from_bigquery_def example_states example_env_fields
      called_def example_frame Let_def)

lemma load_upload_fails_example:
  "load_data_smart env_upload_fails state_empty = Inl (SystemExit 1, state_upload_failed)"
  by (simp add: load_data_smart_def refresh_from_bigquery_def example_states
      env_upload_fails_fields called_def example_frame Let_def)

text \<open>
  Claim C1 as stated fails. The in-memory entry of \<open>state_stale\<close> is dated day 739999, the
  clock reads day 740000: the call succeeds, serves the entry of the day before and makes
  no call at all.
\<close>

theorem C1_counterexample:
  "load_data_smart example_env state_stale = Inr state_stale
   \<and> served_date state_stale = Some 739999
   \<and> date (now_utc example_env) = 740000"
  by (simp add: load_data_smart_def state_stale_def served_date_def yesterday_midnight_def
      date_def example_env_fields example_now_def)

text \<open>
  A fresh pickle in the store is loaded and is dated today; the in-memory entry of
  \<open>state_stale\<close> is returned as it is.
\<close>

theorem C1_served_date_witness:
  "load_data_smart example_env state_fresh_blob = Inr state_loaded
   \<and> df_main state_fresh_blob = None
   \<and> BqQueryMain \<notin> set (new_effects state_fresh_blob state_loaded)
   \<and> served_date state_loaded = Some (date (now_utc example_env))
   \<and> blob state_fresh_blob = Some (Pickle fresh_pickle)
   \<and> df_main state_loaded = Some (cached_main fresh_pickle)
   \<and> timestamps state_loaded = cached_ts fresh_pickle
   \<and> df_main state_stale \<noteq> None
   \<and> outcome_state (load_data_smart example_env state_stale) = state_stale"
proof -
  have a: "df_main state_fresh_blob = None"
    by (simp add: state_fresh_blob_def state_empty_def)
  have b: "BqQueryMain \<notin> set (new_effects state_fresh_blob state_loaded)"
    by (simp add: new_effects_def state_fresh_blob_def state_empty_def state_loaded_def)
  from C1_served_date [OF load_fresh_example] a b
  have "served_date state_loaded = Some (date (now_utc example_env))
      \<and> (\<exists>c. blob state_fresh_blob = Some (Pickle c) \<and> df_main state_loaded = Some (cached_main c)
                \<and> timestamps state_loaded = cached_ts c)"
    by blast
  then have fresh: "served_date state_loaded = Some (date (now_utc example_env))
      \<and> blob state_fresh_blob = Some (Pickle fresh_pickle)
      \<and> df_main state_loaded = Some (cached_main fresh_pickle)
      \<and> timestamps state_loaded = cached_ts fresh_pickle"
    by (auto simp: state_fresh_blob_def state_empty_def)
  have c: "df_main state_stale \<noteq> None"
    by (simp add: state_stale_def)
  then have "load_data_smart example_env state_stale
      = Inr (outcome_state (load_data_smart example_env state_stale))"
    by (simp add: load_data_smart_def)
  from C1_served_date [OF this] c
  have "outcome_state (load_data_smart example_env state_stale) = state_stale"
    by blast
  with fresh a b c load_fresh_example show ?thesis
    by blast
qed

text \<open>
  A first call at 12:30 with empty memory and empty store, a second one at 23:59:59 the
  same day (at which the warehouse would not even answer).
\<close>

theorem C7_idempotent_witness:
  "load_data_smart example_env state_empty = Inr state_refreshed
   \<and> date (now_utc env_later) = date (now_utc example_env)
   \<and> load_data_smart env_later state_refreshed = Inr state_refreshed
   \<and> sweeps state_refreshed \<le> sweeps state_empty + 1"
proof -
  have d: "date (now_utc env_later) = date (now_utc example_env)"
    by (simp add: env_later_def example_env_fields example_now_def date_def)
  from C7_idempotent [OF load_empty_example d] show ?thesis
    using load_empty_example d by simp
qed

text \<open>
  The in-memory entry of \<open>state_stale\<close> is returned as it is; the call that loads the
  fresh pickle leaves it in the store and uploads nothing.
\<close>

theorem C10_writes_only_on_refresh_witness:
  "df_main state_stale \<noteq> None
   \<and> load_data_smart example_env state_stale = Inr state_stale
   \<and> df_main state_fresh_blob = None
   \<and> is_fresh (cached_ts fresh_pickle) (date (now_utc example_env))
   \<and> BqQueryMain \<notin> set (new_effects state_fresh_blob (outcome_state (load_data_smart example_env state_fresh_blob)))
   \<and> blob (outcome_state (load_data_smart example_env state_fresh_blob)) = Some (Pickle fresh_pickle)
   \<and> GcsUpload \<notin> set (new_effects state_fresh_blob (outcome_state (load_data_smart example_env state_fresh_blob)))"
proof -
  note th = C10_writes_only_on_refresh [of state_stale example_env]
  have st: "df_main state_stale \<noteq> None"
    by (simp add: state_stale_def)
  with th have r: "load_data_smart example_env state_stale = Inr state_stale"
    by blast
  note th' = C10_writes_only_on_refresh [of state_fresh_blob example_env]
  have f: "df_main state_fresh_blob = None \<and> \<not> exists_raises example_env
      \<and> \<not> download_raises example_env \<and> blob state_fresh_blob = Some (Pickle fresh_pickle)
      \<and> is_fresh (cached_ts fresh_pickle) (date (now_utc example_env))"
    by (simp add: state_fresh_blob_def state_empty_def example_env_fields fresh_pickle_def
        is_fresh_def example_midnight_def example_now_def date_def)
  with th' obtain s' where s': "load_data_smart example_env state_fresh_blob = Inr s'"
    "blob s' = blob state_fresh_blob" "new_effects state_fresh_blob s' = [GcsExists, GcsDownload]"
    by blast
  then have a: "BqQueryMain \<notin> set (new_effects state_fresh_blob
      (outcome_state (load_data_smart example_env state_fresh_blob)))"
    by simp
  with th' have "blob (outcome_state (load_data_smart example_env state_fresh_blob)) = blob state_fresh_blob
    \<and> GcsUpload \<notin> set (new_effects state_fresh_blob
          (outcome_state (load_data_smart example_env state_fresh_blob)))"
    by blast
  with f a st r show ?thesis
    by simp
qed

text \<open>
  Claim C2 as stated fails. The warehouse answers, the globals hold the new frame, the
  indicators and the timestamps, and the upload raises: the call ends in
  \<^verbatim>\<open>sys.exit(1)\<close>.
\<close>

theorem C2_counterexample:
  "upload_raises env_upload_fails
   \<and> load_data_smart env_upload_fails state_empty = Inl (SystemExit 1, state_upload_failed)
   \<and> df_main state_upload_failed = Some [example_row]
   \<and> df_kpi state_upload_failed = Some [example_kpi]
   \<and> timestamps state_upload_failed = [example_midnight]"
  using load_upload_fails_example
  by (simp add: env_upload_fails_fields state_upload_failed_def)

text \<open>
  An unreadable object in the store: the call recovers from the warehouse when the upload
  works, and exits when it does not.
\<close>

theorem C2_read_failure_degrades_witness:
  "df_main state_unreadable_blob = None
   \<and> \<not> exists_raises example_env
   \<and> blob state_unreadable_blob = Some Unreadable
   \<and> refresh_from_bigquery example_env (called GcsDownload (called GcsExists state_unreadable_blob))
       = Inr state_recovered
   \<and> upload_raises env_upload_fails
   \<and> isl (load_data_smart env_upload_fails state_unreadable_blob)
   \<and> \<not> upload_raises example_env
   \<and> \<not> isl (load_data_smart example_env state_unreadable_blob)
   \<and> df_main (outcome_state (load_data_smart example_env state_unreadable_blob))
       = Some [example_row]
   \<and> blob (outcome_state (load_data_smart example_env state_unreadable_blob))
       = Some (Pickle fresh_pickle)
   \<and> map_sum fst id (load_data_smart env_upload_fails state_unreadable_blob)
       = Inl (SystemExit 1)
   \<and> df_main (outcome_state (load_data_smart env_upload_fails state_unreadable_blob))
       = Some [example_row]
   \<and> df_kpi (outcome_state (load_data_smart env_upload_fails state_unreadable_blob))
       = Some [example_kpi]
   \<and> timestamps (outcome_state (load_data_smart env_upload_fails state_unreadable_blob))
       = [example_midnight]
   \<and> blob (outcome_state (load_data_smart env_upload_fails state_unreadable_blob))
       = Some Unreadable"
proof -
  let ?coerce = "\<lambda>e. map (\<lambda>r. r\<lparr>Avg_Altitude := to_numeric e (Avg_Altitude r)\<rparr>)"
  have h: "df_main state_unreadable_blob = None" "\<not> exists_raises example_env"
    "\<not> exists_raises env_upload_fails"
    "blob state_unreadable_blob = Some Unreadable" "upload_raises env_upload_fails"
    "\<not> upload_raises example_env"
    by (simp_all add: state_unreadable_blob_def state_empty_def example_env_fields
        env_upload_fails_fields)
  have u: "download_raises example_env \<or> Unreadable = Unreadable"
    "download_raises env_upload_fails \<or> Unreadable = Unreadable"
    by simp_all
  note ok = C2_read_failure_degrades [OF h(1) h(2) h(4) u(1)]
  note bad = C2_read_failure_degrades [OF h(1) h(3) h(4) u(2)]
  from ok have r: "refresh_from_bigquery example_env
      (called GcsDownload (called GcsExists state_unreadable_blob)) = Inr state_recovered"
    by (simp add: load_unreadable_example)
  from bad h(5)
  have "\<exists>s'. load_data_smart env_upload_fails state_unreadable_blob = Inl (SystemExit 1, s')"
    by blast
  then have i: "isl (load_data_smart env_upload_fails state_unreadable_blob)"
    by auto
  have pre: "read_gbq_main example_env = Some [example_row]
      \<and> decode_trajectories example_env [example_row] = Some [example_row]
      \<and> read_gbq_kpi example_env = Some [example_kpi]
      \<and> first_timestamps example_env (?coerce example_env [example_row]) = Some [example_midnight]"
    by (simp add: example_env_fields example_frame)
  have pre': "read_gbq_main env_upload_fails = Some [example_row]
      \<and> decode_trajectories env_upload_fails [example_row] = Some [example_row]
      \<and> read_gbq_kpi env_upload_fails = Some [example_kpi]
      \<and> first_timestamps env_upload_fails (?coerce env_upload_fails [example_row])
          = Some [example_midnight]"
    by (simp add: env_upload_fails_fields example_frame)
  from ok have "\<forall>rows decoded kpi ts.
          read_gbq_main example_env = Some rows \<and> decode_trajectories example_env rows = Some decoded
          \<and> read_gbq_kpi example_env = Some kpi
          \<and> first_timestamps example_env (?coerce example_env decoded) = Some ts
          \<longrightarrow>
          (let frame = ?coerce example_env decoded in
           if upload_raises example_env then
             \<exists>s'. load_data_smart example_env state_unreadable_blob = Inl (SystemExit 1, s')
               \<and> df_main s' = Some frame \<and> df_kpi s' = Some kpi \<and> timestamps s' = ts
               \<and> blob s' = blob state_unreadable_blob
           else
             \<exists>s'. load_data_smart example_env state_unreadable_blob = Inr s'
               \<and> df_main s' = Some frame \<and> df_kpi s' = Some kpi \<and> timestamps s' = ts
               \<and> search_options s' = options_of frame
               \<and> blob s' = Some (Pickle \<lparr>cached_main = frame, cached_kpi = kpi, cached_ts = ts\<rparr>)
               \<and> effects s' = effects state_unreadable_blob
                   @ [GcsExists, GcsDownload, BqQueryMain, BqQueryKpi, GcsUpload])"
    by blast
  with pre h(6) obtain s' where s': "load_data_smart example_env state_unreadable_blob = Inr s'"
    "df_main s' = Some (?coerce example_env [example_row])"
    "blob s' = Some (Pickle \<lparr>cached_main = ?coerce example_env [example_row],
        cached_kpi = [example_kpi], cached_ts = [example_midnight]\<rparr>)"
    by (auto simp: Let_def)
  then have good: "\<not> isl (load_data_smart example_env state_unreadable_blob)"
    "df_main (outcome_state (load_data_smart example_env state_unreadable_blob))
       = Some [example_row]"
    "blob (outcome_state (load_data_smart example_env state_unreadable_blob))
       = Some (Pickle fresh_pickle)"
    by (simp_all add: example_frame fresh_pickle_def)
  from bad have "\<forall>rows decoded kpi ts.
          read_gbq_main env_upload_fails = Some rows
          \<and> decode_trajectories env_upload_fails rows = Some decoded
          \<and> read_gbq_kpi env_upload_fails = Some kpi
          \<and> first_timestamps env_upload_fails (?coerce env_upload_fails decoded) = Some ts
          \<longrightarrow>
          (let frame = ?coerce env_upload_fails decoded in
           if upload_raises env_upload_fails then
             \<exists>s'. load_data_smart env_upload_fails state_unreadable_blob = Inl (SystemExit 1, s')
               \<and> df_main s' = Some frame \<and> df_kpi s' = Some kpi \<and> timestamps s' = ts
               \<and> blob s' = blob state_unreadable_blob
           else
             \<exists>s'. load_data_smart env_upload_fails state_unreadable_blob = Inr s'
               \<and> df_main s' = Some frame \<and> df_kpi s' = Some kpi \<and> timestamps s' = ts
               \<and> search_options s' = options_of frame
               \<and> blob s' = Some (Pickle \<lparr>cached_main = frame, cached_kpi = kpi, cached_ts = ts\<rparr>)
               \<and> effects s' = effects state_unreadable_blob
                   @ [GcsExists, GcsDownload, BqQueryMain, BqQueryKpi, GcsUpload])"
    by blast
  with pre' h(5) obtain t' where
    t': "load_data_smart env_upload_fails state_unreadable_blob = Inl (SystemExit 1, t')"
    "df_main t' = Some (?coerce env_upload_fails [example_row])"
    "df_kpi t' = Some [example_kpi]" "timestamps t' = [example_midnight]"
    "blob t' = blob state_unreadable_blob"
    by (auto simp: Let_def)
  then have failed: "map_sum fst id (load_data_smart env_upload_fails state_unreadable_blob)
       = Inl (SystemExit 1)"
    "df_main (outcome_state (load_data_smart env_upload_fails state_unreadable_blob))
       = Some [example_row]"
    "df_kpi (outcome_state (load_data_smart env_upload_fails state_unreadable_blob))
       = Some [example_kpi]"
    "timestamps (outcome_state (load_data_smart env_upload_fails state_unreadable_blob))
       = [example_midnight]"
    "blob (outcome_state (load_data_smart env_upload_fails state_unreadable_blob))
       = Some Unreadable"
    by (simp_all add: example_frame h(4))
  from h r i good failed show ?thesis
    by simp
qed

end
